theory Spec2Isabelle
  imports Main
begin

section \<open>The NFT creation pipeline of App.js\<close>

text \<open>
  The component \<open>App\<close> drives one artifact through four remote operations: an inference
  request (\<open>query\<close>, called by \<open>createImage\<close>), two pinning requests
  (\<open>uploadImageToPinata\<close>, called by \<open>handleUpload\<close>) and a paid contract call
  (\<open>mintImage\<close>), in the order fixed by \<open>submitHandler\<close>.

  Every function of the component is modelled as a function that returns the list of
  effects it performs, in program order, together with its result. The effects are the
  calls of the React state setters, the requests sent to remote services and the calls
  into the wallet. What the remote services answer is not decided by the program: it is
  read from a \<open>world\<close>, which all theorems quantify over. A JavaScript exception or
  rejected promise is a value \<open>Inl e\<close>.

  Strings are lists of 8-bit characters; a JavaScript string whose code units all lie
  below 256 is its list of code units.
\<close>

subsection \<open>JavaScript values\<close>

type_synonym blob = string

datatype js_error = Error string | TypeError string

text \<open>
  A template literal converts an interpolated value with \<open>ToString\<close>. The values
  interpolated here are strings or \<open>undefined\<close> (\<open>None\<close>).
\<close>

definition ToString :: "string option \<Rightarrow> string" where
  "ToString v = (case v of None \<Rightarrow> ''undefined'' | Some s \<Rightarrow> s)"

text \<open>
  \<open>String.prototype.trim\<close> removes white space and line terminators at both ends. Of
  the code units below 256 these are 9 to 13, 32 and 160.
\<close>

definition is_white_space :: "char \<Rightarrow> bool" where
  "is_white_space c = ((of_char c :: nat) \<in> {9, 10, 11, 12, 13, 32, 160})"

definition trim :: "string \<Rightarrow> string" where
  "trim s = rev (dropWhile is_white_space (rev (dropWhile is_white_space s)))"

datatype json = JStr string | JArr "json list" | JObj "(string \<times> json) list"

text \<open>
  \<open>JSON.stringify\<close> on strings, arrays and objects with string keys. A string is
  quoted; the quotation mark and the backslash are escaped, the control characters have
  their short escapes or \<open>\u00XX\<close> in lower-case hexadecimal digits.
\<close>

definition hex_digit :: "nat \<Rightarrow> char" where
  "hex_digit n = (if n < 10 then char_of (48 + n) else char_of (87 + n))"

definition quote_char :: "char \<Rightarrow> string" where
  "quote_char c =
     (let n = (of_char c :: nat) in
      if n = 34 then [CHR 0x5C, CHR 0x22]
      else if n = 92 then [CHR 0x5C, CHR 0x5C]
      else if n = 8 then [CHR 0x5C, CHR ''b'']
      else if n = 12 then [CHR 0x5C, CHR ''f'']
      else if n = 10 then [CHR 0x5C, CHR ''n'']
      else if n = 13 then [CHR 0x5C, CHR ''r'']
      else if n = 9 then [CHR 0x5C, CHR ''t'']
      else if n < 32 then [CHR 0x5C, CHR ''u'', CHR ''0'', CHR ''0'', hex_digit (n div 16), hex_digit (n mod 16)]
      else [c])"

definition QuoteJSONString :: "string \<Rightarrow> string" where
  "QuoteJSONString s = [CHR 0x22] @ concat (map quote_char s) @ [CHR 0x22]"

fun join_comma :: "string list \<Rightarrow> string" where
  "join_comma [] = []"
| "join_comma [x] = x"
| "join_comma (x # y # ys) = x @ '','' @ join_comma (y # ys)"

fun JSON_stringify :: "json \<Rightarrow> string" where
  "JSON_stringify (JStr s) = QuoteJSONString s"
| "JSON_stringify (JArr xs) = ''['' @ join_comma (map JSON_stringify xs) @ '']''"
| "JSON_stringify (JObj kvs) =
     ''{'' @ join_comma (map (\<lambda>kv. QuoteJSONString (fst kv) @ '':'' @ JSON_stringify (snd kv)) kvs) @ ''}''"

subsection \<open>The world: what the environment and the remote services answer\<close>

text \<open>
  \<open>fetch\<close> rejects on a network failure (\<open>FetchRejects\<close>) and resolves with a response
  for every HTTP status. \<open>response.blob()\<close> then rejects (\<open>BlobRejects\<close>, with the
  status) or yields the body (\<open>FetchBlob\<close>, with the status).

  \<open>axios.post\<close> rejects on a network failure and on a status outside 2xx
  (\<open>AxiosRejects\<close>, with \<open>error.message\<close>). When it resolves, \<open>res.data\<close> is the
  parsed body: \<open>AxiosData h\<close> when \<open>res.data.IpfsHash\<close> can be read, \<open>h\<close> being the
  string found there or \<open>None\<close> for \<open>undefined\<close>; \<open>AxiosNoData m\<close> when \<open>res.data\<close> is
  \<open>null\<close> or \<open>undefined\<close>, so that reading the property throws a type error with
  message \<open>m\<close>.

  The wallet calls \<open>provider.getSigner()\<close>, \<open>nft.connect(signer).mint(...)\<close> and
  \<open>transaction.wait()\<close> resolve or reject with a message.

  Each of these calls is made at most once in a run, so one answer per call describes
  the world of a run. \<open>parseUnits\<close> is the function of that name of the ethers library.
\<close>

datatype fetch_outcome =
    FetchRejects string
  | BlobRejects nat string
  | FetchBlob nat blob

datatype axios_outcome =
    AxiosRejects string
  | AxiosNoData string
  | AxiosData "string option"

datatype promise_outcome = Resolves | Rejects string

record world =
  REACT_APP_PINATA_JWT :: "string option"
  REACT_APP_HUGGING_FACE_API_KEY :: "string option"
  fetch_response :: fetch_outcome
  pinFileToIPFS_response :: axios_outcome
  pinJSONToIPFS_response :: axios_outcome
  getSigner_result :: promise_outcome
  mint_result :: promise_outcome
  wait_result :: promise_outcome
  parseUnits :: "string \<Rightarrow> string \<Rightarrow> int"

subsection \<open>The component's state and its effects\<close>

text \<open>
  The state variables of \<open>App\<close> that the run reads or writes. \<open>provider\<close> and \<open>nft\<close>
  are \<open>None\<close> while they are \<open>null\<close>, that is until \<open>loadBlockchainData\<close> has set them.
  A run reads \<open>name\<close>, \<open>description\<close>, \<open>provider\<close> and \<open>nft\<close> from the state in
  which the form was submitted.
\<close>

record app_state =
  provider :: "unit option"
  nft :: "unit option"
  name :: string
  description :: string
  isWaiting :: bool
  message :: string
  url :: "string option"

text \<open>
  The effects: the state setters \<open>setIsWaiting\<close>, \<open>setMessage\<close>, \<open>setURL\<close>;
  \<open>window.alert\<close>; the inference request \<open>Fetch url authorization body\<close>;
  \<open>reader.readAsDataURL\<close>; the pinning requests \<open>PostFile url authorization contents\<close>
  (the multipart upload of the file \<open>image.jpeg\<close>) and \<open>PostJSON url authorization
  document\<close>; and the three wallet calls, \<open>Mint tokenURI value\<close> being the contract call
  with its payment. Console output is not recorded.
\<close>

datatype event =
    SetIsWaiting bool
  | SetMessage string
  | SetURL "string option"
  | Alert string
  | Fetch string string string
  | ReadAsDataURL blob
  | PostFile string string string
  | PostJSON string string json
  | GetSigner
  | Mint "string option" int
  | TxWait

fun apply_event :: "app_state \<Rightarrow> event \<Rightarrow> app_state" where
  "apply_event st (SetIsWaiting b) = st\<lparr>isWaiting := b\<rparr>"
| "apply_event st (SetMessage m) = st\<lparr>message := m\<rparr>"
| "apply_event st (SetURL u) = st\<lparr>url := u\<rparr>"
| "apply_event st _ = st"

definition apply_events :: "app_state \<Rightarrow> event list \<Rightarrow> app_state" where
  "apply_events st evs = foldl apply_event st evs"

fun is_remote_call :: "event \<Rightarrow> bool" where
  "is_remote_call (Fetch u a b) = True"
| "is_remote_call (PostFile u a f) = True"
| "is_remote_call (PostJSON u a d) = True"
| "is_remote_call GetSigner = True"
| "is_remote_call (Mint t v) = True"
| "is_remote_call TxWait = True"
| "is_remote_call _ = False"

fun is_upload_call :: "event \<Rightarrow> bool" where
  "is_upload_call (PostFile u a f) = True"
| "is_upload_call (PostJSON u a d) = True"
| "is_upload_call _ = False"

fun is_mint_call :: "event \<Rightarrow> bool" where
  "is_mint_call (Mint t v) = True"
| "is_mint_call _ = False"

fun is_fetch_call :: "event \<Rightarrow> bool" where
  "is_fetch_call (Fetch u a b) = True"
| "is_fetch_call _ = False"

subsection \<open>uploadImageToPinata\<close>

record upload_result =
  imageUrl :: string
  metadataUrl :: string
  imageHash :: "string option"
  metadataHash :: "string option"

text \<open>
  \<open>new File([imageData], "image.jpeg", ...)\<close>: a part that is neither a blob nor a
  buffer is converted to a string, so \<open>undefined\<close> becomes the nine bytes of its name.
\<close>

definition file_contents :: "blob option \<Rightarrow> string" where
  "file_contents imageData = (case imageData of None \<Rightarrow> ''undefined'' | Some b \<Rightarrow> b)"

text \<open>The \<open>catch\<close> block of \<open>uploadImageToPinata\<close>, entered with \<open>error.message = m\<close>.\<close>

definition upload_catch :: "event list \<Rightarrow> string \<Rightarrow> event list \<times> (js_error + upload_result)" where
  "upload_catch evs m =
     (evs @ [SetMessage ''Upload failed. See console for details.''],
      Inl (Error (''Failed to upload to Pinata: '' @ m)))"

definition uploadImageToPinata ::
  "world \<Rightarrow> blob option \<Rightarrow> string \<Rightarrow> string \<Rightarrow> event list \<times> (js_error + upload_result)" where
  "uploadImageToPinata w imageData nm descr =
     (case map_option trim (REACT_APP_PINATA_JWT w) of
        None \<Rightarrow> ([], Inl (Error ''Pinata JWT token is missing from environment variables.''))
      | Some pinataJWT \<Rightarrow>
          (if pinataJWT = [] then
             ([], Inl (Error ''Pinata JWT token is missing from environment variables.''))
           else
             (let evs1 = [SetMessage ''Uploading image to IPFS...'',
                          PostFile ''https://api.pinata.cloud/pinning/pinFileToIPFS''
                            (''Bearer '' @ pinataJWT) (file_contents imageData)]
              in (case pinFileToIPFS_response w of
                    AxiosRejects m \<Rightarrow> upload_catch evs1 m
                  | AxiosNoData m \<Rightarrow> upload_catch evs1 m
                  | AxiosData imageHash' \<Rightarrow>
                      (let imageUrl' = ''https://gateway.pinata.cloud/ipfs/'' @ ToString imageHash';
                           metadata = JObj [(''name'', JStr nm),
                                            (''description'', JStr descr),
                                            (''image'', JStr imageUrl'),
                                            (''attributes'', JArr [])];
                           evs2 = evs1 @ [SetMessage ''Uploading metadata...'',
                                          PostJSON ''https://api.pinata.cloud/pinning/pinJSONToIPFS''
                                            (''Bearer '' @ pinataJWT) metadata]
                       in (case pinJSONToIPFS_response w of
                             AxiosRejects m \<Rightarrow> upload_catch evs2 m
                           | AxiosNoData m \<Rightarrow> upload_catch evs2 m
                           | AxiosData metadataHash' \<Rightarrow>
                               (let metadataUrl' =
                                      ''https://gateway.pinata.cloud/ipfs/'' @ ToString metadataHash'
                                in (evs2 @ [SetMessage ''Upload complete!'', SetURL (Some metadataUrl')],
                                    Inr \<lparr>imageUrl = imageUrl', metadataUrl = metadataUrl',
                                         imageHash = imageHash', metadataHash = metadataHash'\<rparr>))))))))"

subsection \<open>query and createImage\<close>

definition query :: "world \<Rightarrow> json \<Rightarrow> event list \<times> (js_error + blob)" where
  "query w data =
     ([Fetch ''https://api-inference.huggingface.co/models/stabilityai/stable-diffusion-xl-base-1.0''
         (''Bearer '' @ ToString (REACT_APP_HUGGING_FACE_API_KEY w))
         (JSON_stringify data)],
      case fetch_response w of
        FetchRejects m \<Rightarrow> Inl (TypeError m)
      | BlobRejects status m \<Rightarrow> Inl (TypeError m)
      | FetchBlob status result \<Rightarrow> Inr result)"

text \<open>
  \<open>createImage\<close> returns the blob, or \<open>undefined\<close> (\<open>None\<close>) when its \<open>catch\<close> block
  ran. The callback of the file reader, which stores the preview later, is not part of
  the run; the call that starts the reader is recorded.
\<close>

definition createImage :: "world \<Rightarrow> app_state \<Rightarrow> event list \<times> blob option" where
  "createImage w st =
     (case query w (JObj [(''inputs'', JStr (''`'' @ description st @ ''`''))]) of
        (evq, Inr response) \<Rightarrow>
          ([SetMessage ''Generating Image...''] @ evq @ [ReadAsDataURL response], Some response)
      | (evq, Inl error) \<Rightarrow>
          ([SetMessage ''Generating Image...''] @ evq @
           [SetMessage ''Failed to generate image. Please try again.'', SetIsWaiting False],
           None))"

subsection \<open>handleUpload, mintImage and submitHandler\<close>

definition handleUpload :: "world \<Rightarrow> app_state \<Rightarrow> blob option \<Rightarrow> event list \<times> string option" where
  "handleUpload w st imageBlob =
     (case uploadImageToPinata w imageBlob (name st) (description st) of
        (evs, Inr result) \<Rightarrow> (evs, Some (metadataUrl result))
      | (evs, Inl err) \<Rightarrow> (evs, None))"

definition mintImage :: "world \<Rightarrow> app_state \<Rightarrow> string option \<Rightarrow> event list \<times> (js_error + unit)" where
  "mintImage w st tokenURI =
     (case provider st of
        None \<Rightarrow> ([SetMessage ''Waiting for Mint...''], Inl (TypeError ''provider is null''))
      | Some p \<Rightarrow>
          (case getSigner_result w of
             Rejects m \<Rightarrow> ([SetMessage ''Waiting for Mint...'', GetSigner], Inl (Error m))
           | Resolves \<Rightarrow>
               (case nft st of
                  None \<Rightarrow> ([SetMessage ''Waiting for Mint...'', GetSigner], Inl (TypeError ''nft is null''))
                | Some c \<Rightarrow>
                    (case mint_result w of
                       Rejects m \<Rightarrow>
                         ([SetMessage ''Waiting for Mint...'', GetSigner,
                           Mint tokenURI (parseUnits w ''1'' ''ether'')], Inl (Error m))
                     | Resolves \<Rightarrow>
                         (case wait_result w of
                            Rejects m \<Rightarrow>
                              ([SetMessage ''Waiting for Mint...'', GetSigner,
                                Mint tokenURI (parseUnits w ''1'' ''ether''), TxWait], Inl (Error m))
                          | Resolves \<Rightarrow>
                              ([SetMessage ''Waiting for Mint...'', GetSigner,
                                Mint tokenURI (parseUnits w ''1'' ''ether''), TxWait], Inr ()))))))"

definition submitHandler :: "world \<Rightarrow> app_state \<Rightarrow> event list \<times> (js_error + unit)" where
  "submitHandler w st =
     (if name st = [] \<or> description st = [] then
        ([Alert ''Please provide a name and description''], Inr ())
      else
        (case createImage w st of (evs1, imageData) \<Rightarrow>
          (case handleUpload w st imageData of (evs2, u) \<Rightarrow>
            (case mintImage w st u of
               (evs3, Inl err) \<Rightarrow>
                 ([SetIsWaiting True] @ evs1 @ evs2 @ [SetURL u] @ evs3, Inl err)
             | (evs3, Inr ok) \<Rightarrow>
                 ([SetIsWaiting True] @ evs1 @ evs2 @ [SetURL u] @ evs3 @
                  [SetIsWaiting False, SetMessage []], Inr ())))))"

subsection \<open>The form\<close>

text \<open>
  \<open>submitHandler\<close> is the \<open>onSubmit\<close> handler of a form with two controls and one
  submit button. The button carries \<open>disabled={isWaiting}\<close>: while it is disabled the
  form cannot be submitted. The controls carry \<open>required\<close>, \<open>minLength\<close> and
  \<open>maxLength\<close>: the browser checks them and fires the submit event only when both
  controls are valid. A control violates \<open>required\<close> when its value is empty. It
  violates \<open>minLength\<close> when its value was last changed by a user edit, is not empty and
  is shorter, and \<open>maxLength\<close> when its value was last changed by a user edit and is
  longer: a value set by a script is not checked for its length.

  \<open>submit_attempt\<close> is one attempt to submit the form in the state \<open>st\<close>, the two
  flags saying whether the name and the description were last changed by a user edit:
  nothing happens (\<open>ButtonDisabled\<close>), the browser reports the violations of the two
  controls (\<open>Invalid\<close>), or the handler runs (\<open>Submitted\<close>, with its effects and
  result). \<open>form_submit\<close> is an attempt with values that the user typed.
\<close>

datatype violation = ValueMissing | TooShort | TooLong

definition constraint_violations :: "nat \<Rightarrow> nat \<Rightarrow> bool \<Rightarrow> string \<Rightarrow> violation list" where
  "constraint_violations minLength maxLength user_edit v =
     (if v = [] then [ValueMissing] else []) @
     (if user_edit \<and> v \<noteq> [] \<and> length v < minLength then [TooShort] else []) @
     (if user_edit \<and> maxLength < length v then [TooLong] else [])"

datatype submit_outcome =
    ButtonDisabled
  | Invalid "violation list" "violation list"
  | Submitted "event list" "js_error + unit"

definition submit_attempt :: "bool \<Rightarrow> bool \<Rightarrow> world \<Rightarrow> app_state \<Rightarrow> submit_outcome" where
  "submit_attempt name_edited description_edited w st =
     (if isWaiting st then ButtonDisabled
      else if constraint_violations 3 30 name_edited (name st) = [] \<and>
              constraint_violations 10 150 description_edited (description st) = []
      then (case submitHandler w st of (evs, r) \<Rightarrow> Submitted evs r)
      else Invalid (constraint_violations 3 30 name_edited (name st))
                   (constraint_violations 10 150 description_edited (description st)))"

definition form_submit :: "world \<Rightarrow> app_state \<Rightarrow> submit_outcome" where
  "form_submit w st = submit_attempt True True w st"

fun effects :: "submit_outcome \<Rightarrow> event list" where
  "effects (Submitted evs r) = evs"
| "effects _ = []"

text \<open>
  A run is suspended, and the page can handle a click, exactly while one of its remote
  calls is pending. \<open>suspended_states st evs\<close> replays the effects \<open>evs\<close> of a run
  from the state \<open>st\<close> and lists the state of the component at every remote call,
  taken just after the call is issued.
\<close>

fun suspended_states :: "app_state \<Rightarrow> event list \<Rightarrow> app_state list" where
  "suspended_states st [] = []"
| "suspended_states st (e # es) =
     (if is_remote_call e then [apply_event st e] else []) @
     suspended_states (apply_event st e) es"

subsection \<open>scripts/deploy.js\<close>

record deployment =
  NAME :: string
  SYMBOL :: string
  COST :: int

definition main :: "world \<Rightarrow> deployment" where
  "main w = \<lparr>NAME = ''AI Generated NFT'', SYMBOL = ''AINFT'', COST = parseUnits w ''1'' ''ether''\<rparr>"

subsection \<open>Example worlds\<close>

text \<open>
  The instance of \<open>parseUnits\<close> used in the examples: the unit table of the ethers
  library, for values written as a string of decimal digits.
\<close>

fun unit_index :: "string \<Rightarrow> string list \<Rightarrow> nat" where
  "unit_index u [] = 0"
| "unit_index u (x # xs) = (if u = x then 0 else Suc (unit_index u xs))"

definition digits_value :: "string \<Rightarrow> int" where
  "digits_value v = foldl (\<lambda>acc c. 10 * acc + (int (of_char c) - 48)) 0 v"

definition ethers_parseUnits :: "string \<Rightarrow> string \<Rightarrow> int" where
  "ethers_parseUnits v u =
     digits_value v *
     10 ^ (3 * unit_index u [''wei'', ''kwei'', ''mwei'', ''gwei'', ''szabo'', ''finney'', ''ether''])"

text \<open>
  The scenario of the specification: every service answers, the image is pinned under
  \<open>Qm1mage\<close> and the metadata under \<open>Qmeta\<close>, the wallet signs and the transaction
  is confirmed.
\<close>

definition scenario_world :: world where
  "scenario_world =
     \<lparr>REACT_APP_PINATA_JWT = Some ''jwt'',
      REACT_APP_HUGGING_FACE_API_KEY = Some ''hf'',
      fetch_response = FetchBlob 200 ''img'',
      pinFileToIPFS_response = AxiosData (Some ''Qm1mage''),
      pinJSONToIPFS_response = AxiosData (Some ''Qmeta''),
      getSigner_result = Resolves,
      mint_result = Resolves,
      wait_result = Resolves,
      parseUnits = ethers_parseUnits\<rparr>"

definition scenario_state :: app_state where
  "scenario_state =
     \<lparr>provider = Some (), nft = Some (),
      name = ''Cyber Lion'',
      description = ''A futuristic lion with cybernetic enhancements.'',
      isWaiting = False, message = [], url = None\<rparr>"

text \<open>
  Variations of the scenario in which one service fails. When the upload step fails the
  token URI is \<open>undefined\<close>; the contract call made with it is rejected, since the
  ethers library cannot encode \<open>undefined\<close> as the string argument of \<open>mint\<close>.
\<close>

definition network_down_world :: world where
  "network_down_world = scenario_world\<lparr>fetch_response := FetchRejects ''Failed to fetch''\<rparr>"

definition service_unavailable_world :: world where
  "service_unavailable_world = scenario_world\<lparr>fetch_response := FetchBlob 503 ''{}''\<rparr>"

definition no_credential_world :: world where
  "no_credential_world =
     scenario_world\<lparr>REACT_APP_PINATA_JWT := None,
                    mint_result := Rejects ''invalid string value''\<rparr>"

definition upload_rejected_world :: world where
  "upload_rejected_world =
     scenario_world\<lparr>pinFileToIPFS_response := AxiosRejects ''Network Error'',
                    mint_result := Rejects ''invalid string value''\<rparr>"

definition mint_rejected_world :: world where
  "mint_rejected_world = scenario_world\<lparr>mint_result := Rejects ''user rejected action''\<rparr>"

section \<open>How the effects of a run are composed\<close>

text \<open>The equations that evaluate a run in one of the example worlds.\<close>

lemmas world_defs = scenario_world_def network_down_world_def service_unavailable_world_def
  no_credential_world_def upload_rejected_world_def mint_rejected_world_def

lemmas run_defs = submitHandler_def createImage_def query_def handleUpload_def
  uploadImageToPinata_def upload_catch_def mintImage_def file_contents_def ToString_def
  trim_def is_white_space_def Let_def ethers_parseUnits_def digits_value_def

lemma submitHandler_effects:
  "name st \<noteq> [] \<Longrightarrow> description st \<noteq> [] \<Longrightarrow>
   fst (submitHandler w st) =
     [SetIsWaiting True] @ fst (createImage w st) @
     fst (handleUpload w st (snd (createImage w st))) @
     [SetURL (snd (handleUpload w st (snd (createImage w st))))] @
     fst (mintImage w st (snd (handleUpload w st (snd (createImage w st))))) @
     (case snd (mintImage w st (snd (handleUpload w st (snd (createImage w st))))) of
        Inl err \<Rightarrow> [] | Inr ok \<Rightarrow> [SetIsWaiting False, SetMessage []])"
  by (simp add: submitHandler_def split: prod.splits sum.splits)

lemma submitHandler_result:
  "name st \<noteq> [] \<Longrightarrow> description st \<noteq> [] \<Longrightarrow>
   snd (submitHandler w st) =
     snd (mintImage w st (snd (handleUpload w st (snd (createImage w st)))))"
  by (simp add: submitHandler_def split: prod.splits sum.splits)

lemma createImage_effects:
  "fst (createImage w st) =
     [SetMessage ''Generating Image...'',
      Fetch ''https://api-inference.huggingface.co/models/stabilityai/stable-diffusion-xl-base-1.0''
        (''Bearer '' @ ToString (REACT_APP_HUGGING_FACE_API_KEY w))
        (JSON_stringify (JObj [(''inputs'', JStr (''`'' @ description st @ ''`''))]))] @
     (case fetch_response w of
        FetchBlob status b \<Rightarrow> [ReadAsDataURL b]
      | _ \<Rightarrow> [SetMessage ''Failed to generate image. Please try again.'', SetIsWaiting False])"
  by (simp add: createImage_def query_def split: fetch_outcome.splits)

lemma createImage_result:
  "snd (createImage w st) = (case fetch_response w of FetchBlob status b \<Rightarrow> Some b | _ \<Rightarrow> None)"
  by (simp add: createImage_def query_def split: fetch_outcome.splits)

lemma handleUpload_effects:
  "fst (handleUpload w st b) = fst (uploadImageToPinata w b (name st) (description st))"
  by (simp add: handleUpload_def split: prod.splits sum.splits)

lemma createImage_no_upload: "filter is_upload_call (fst (createImage w st)) = []"
  by (simp add: createImage_effects split: fetch_outcome.splits)

lemma createImage_no_mint: "filter is_mint_call (fst (createImage w st)) = []"
  by (simp add: createImage_effects split: fetch_outcome.splits)

lemma mintImage_no_upload: "filter is_upload_call (fst (mintImage w st t)) = []"
  by (simp add: mintImage_def split: option.splits promise_outcome.splits)

lemma mintImage_no_fetch: "filter is_fetch_call (fst (mintImage w st t)) = []"
  by (simp add: mintImage_def split: option.splits promise_outcome.splits)

lemma upload_no_mint: "filter is_mint_call (fst (uploadImageToPinata w b n d)) = []"
  by (simp add: uploadImageToPinata_def upload_catch_def Let_def
      split: option.splits axios_outcome.splits)

lemma upload_no_fetch: "filter is_fetch_call (fst (uploadImageToPinata w b n d)) = []"
  by (simp add: uploadImageToPinata_def upload_catch_def Let_def
      split: option.splits axios_outcome.splits)

section \<open>The metadata document and the token URI\<close>

lemma upload_calls_after_image_pinned:
  assumes "map_option trim (REACT_APP_PINATA_JWT w) = Some jwt" and "jwt \<noteq> []"
    and "pinFileToIPFS_response w = AxiosData h"
  shows "filter is_upload_call (fst (uploadImageToPinata w b n d)) =
           [PostFile ''https://api.pinata.cloud/pinning/pinFileToIPFS'' (''Bearer '' @ jwt)
              (file_contents b),
            PostJSON ''https://api.pinata.cloud/pinning/pinJSONToIPFS'' (''Bearer '' @ jwt)
              (JObj [(''name'', JStr n), (''description'', JStr d),
                     (''image'', JStr (''https://gateway.pinata.cloud/ipfs/'' @ ToString h)),
                     (''attributes'', JArr [])])]"
  unfolding uploadImageToPinata_def assms(1) using assms(2,3)
  by (simp add: upload_catch_def Let_def split: axios_outcome.splits)

text \<open>
  Claim C1. In a run whose image upload succeeds (the form was submitted, the credential
  is present and the pinning service answers the file upload with the content identifier
  \<open>h\<close>), the upload requests of the run are the file upload followed by exactly one
  metadata upload, and the document handed to the metadata upload has, as its
  \<open>image\<close> entry, the gateway URL built from \<open>h\<close>. The document is the payload of the
  request, so the equality holds when the request is issued.
\<close>

theorem C1_metadata_image_is_image_url:
  assumes "name st \<noteq> []" and "description st \<noteq> []"
    and "map_option trim (REACT_APP_PINATA_JWT w) = Some jwt" and "jwt \<noteq> []"
    and "pinFileToIPFS_response w = AxiosData h"
  shows "filter is_upload_call (fst (submitHandler w st)) =
           [PostFile ''https://api.pinata.cloud/pinning/pinFileToIPFS'' (''Bearer '' @ jwt)
              (file_contents (snd (createImage w st))),
            PostJSON ''https://api.pinata.cloud/pinning/pinJSONToIPFS'' (''Bearer '' @ jwt)
              (JObj [(''name'', JStr (name st)), (''description'', JStr (description st)),
                     (''image'', JStr (''https://gateway.pinata.cloud/ipfs/'' @ ToString h)),
                     (''attributes'', JArr [])])]"
proof -
  have "filter is_upload_call (fst (submitHandler w st)) =
          filter is_upload_call
            (fst (uploadImageToPinata w (snd (createImage w st)) (name st) (description st)))"
    using assms(1,2)
    by (simp add: submitHandler_effects createImage_no_upload mintImage_no_upload
        handleUpload_effects split: sum.splits)
  then show ?thesis
    using upload_calls_after_image_pinned [OF assms(3,4,5)] by simp
qed

theorem C1_scenario:
  "filter is_upload_call (fst (submitHandler scenario_world scenario_state)) =
     [PostFile ''https://api.pinata.cloud/pinning/pinFileToIPFS'' ''Bearer jwt'' ''img'',
      PostJSON ''https://api.pinata.cloud/pinning/pinJSONToIPFS'' ''Bearer jwt''
        (JObj [(''name'', JStr ''Cyber Lion''),
               (''description'', JStr ''A futuristic lion with cybernetic enhancements.''),
               (''image'', JStr ''https://gateway.pinata.cloud/ipfs/Qm1mage''),
               (''attributes'', JArr [])])]"
  using C1_metadata_image_is_image_url
          [of scenario_state scenario_world "''jwt''" "Some ''Qm1mage''"]
  by (simp add: scenario_world_def scenario_state_def trim_def is_white_space_def ToString_def
      createImage_result file_contents_def)

lemma upload_result_after_both_pinned:
  assumes "map_option trim (REACT_APP_PINATA_JWT w) = Some jwt" and "jwt \<noteq> []"
    and "pinFileToIPFS_response w = AxiosData ih"
    and "pinJSONToIPFS_response w = AxiosData mh"
  shows "snd (uploadImageToPinata w b n d) =
           Inr \<lparr>imageUrl = ''https://gateway.pinata.cloud/ipfs/'' @ ToString ih,
                metadataUrl = ''https://gateway.pinata.cloud/ipfs/'' @ ToString mh,
                imageHash = ih, metadataHash = mh\<rparr>"
  unfolding uploadImageToPinata_def assms(1) using assms(2,3,4)
  by (simp add: Let_def)

lemma handleUpload_result:
  "snd (handleUpload w st b) =
     (case snd (uploadImageToPinata w b (name st) (description st)) of
        Inl err \<Rightarrow> None | Inr result \<Rightarrow> Some (metadataUrl result))"
  by (simp add: handleUpload_def split: prod.splits sum.splits)

lemma mintImage_mint_calls:
  "filter is_mint_call (fst (mintImage w st t)) =
     (if provider st \<noteq> None \<and> nft st \<noteq> None \<and> getSigner_result w = Resolves
      then [Mint t (parseUnits w ''1'' ''ether'')] else [])"
  by (simp add: mintImage_def split: option.splits promise_outcome.splits)

lemma submitHandler_mint_calls:
  assumes "name st \<noteq> []" and "description st \<noteq> []"
  shows "filter is_mint_call (fst (submitHandler w st)) =
           filter is_mint_call
             (fst (mintImage w st (snd (handleUpload w st (snd (createImage w st))))))"
  using assms
  by (simp add: submitHandler_effects createImage_no_mint upload_no_mint
      handleUpload_effects split: sum.splits)

text \<open>
  Claim C2. In a run in which both uploads succeed (the form was submitted, the credential
  is present, and the pinning service answers the file upload and the metadata upload
  with content identifiers), the only mint call of the run carries, as its token URI, the
  gateway URL built from the content identifier \<open>mh\<close> of the metadata upload. The call
  is made whenever the wallet is connected and hands out a signer.
\<close>

theorem C2_token_uri_is_metadata_url:
  assumes "name st \<noteq> []" and "description st \<noteq> []"
    and "map_option trim (REACT_APP_PINATA_JWT w) = Some jwt" and "jwt \<noteq> []"
    and "pinFileToIPFS_response w = AxiosData ih"
    and "pinJSONToIPFS_response w = AxiosData mh"
  shows "filter is_mint_call (fst (submitHandler w st)) =
           (if provider st \<noteq> None \<and> nft st \<noteq> None \<and> getSigner_result w = Resolves
            then [Mint (Some (''https://gateway.pinata.cloud/ipfs/'' @ ToString mh))
                    (parseUnits w ''1'' ''ether'')]
            else [])"
proof -
  have "snd (handleUpload w st (snd (createImage w st))) =
          Some (''https://gateway.pinata.cloud/ipfs/'' @ ToString mh)"
    using upload_result_after_both_pinned [OF assms(3,4,5,6)]
    by (simp add: handleUpload_result)
  then show ?thesis
    using submitHandler_mint_calls [OF assms(1,2)] by (simp add: mintImage_mint_calls)
qed

theorem C2_scenario:
  "filter is_mint_call (fst (submitHandler scenario_world scenario_state)) =
     [Mint (Some ''https://gateway.pinata.cloud/ipfs/Qmeta'') 1000000000000000000]"
  using C2_token_uri_is_metadata_url
          [of scenario_state scenario_world "''jwt''" "Some ''Qm1mage''" "Some ''Qmeta''"]
  by (simp add: scenario_world_def scenario_state_def trim_def is_white_space_def ToString_def
      ethers_parseUnits_def digits_value_def)

section \<open>The mint call\<close>

lemma mintImage_effects:
  assumes "provider st = Some p" and "nft st = Some c" and "getSigner_result w = Resolves"
  shows "fst (mintImage w st t) =
           [SetMessage ''Waiting for Mint...'', GetSigner, Mint t (parseUnits w ''1'' ''ether'')] @
           (case mint_result w of Rejects m \<Rightarrow> [] | Resolves \<Rightarrow> [TxWait])"
  using assms by (simp add: mintImage_def split: promise_outcome.splits)

lemma mintImage_result:
  assumes "provider st = Some p" and "nft st = Some c" and "getSigner_result w = Resolves"
  shows "snd (mintImage w st t) =
           (case mint_result w of
              Rejects m \<Rightarrow> Inl (Error m)
            | Resolves \<Rightarrow> (case wait_result w of Rejects m \<Rightarrow> Inl (Error m) | Resolves \<Rightarrow> Inr ()))"
  using assms by (simp add: mintImage_def split: promise_outcome.splits)

text \<open>
  Claim C9. In a run that reaches the mint call (the form was submitted, the wallet is
  connected and hands out a signer), the call carries the token URI returned by the
  upload step together with the payment \<open>parseUnits("1", "ether")\<close>, which is the cost
  the deployment script passes to the contract. After the call the run awaits the
  confirmation of the transaction; the effects that end a successful run come only after
  that wait has resolved, and the run returns normally exactly when the call and the wait
  both resolve.
\<close>

theorem C9_mint_value_and_confirmation:
  assumes "name st \<noteq> []" and "description st \<noteq> []"
    and "provider st = Some p" and "nft st = Some c" and "getSigner_result w = Resolves"
  shows "\<exists>pre. filter is_mint_call pre = [] \<and>
           fst (submitHandler w st) =
             pre @ Mint (snd (handleUpload w st (snd (createImage w st)))) (COST (main w)) #
               (case mint_result w of
                  Rejects m \<Rightarrow> []
                | Resolves \<Rightarrow>
                    TxWait # (case wait_result w of
                                Rejects m \<Rightarrow> []
                              | Resolves \<Rightarrow> [SetIsWaiting False, SetMessage []])) \<and>
           COST (main w) = parseUnits w ''1'' ''ether'' \<and>
           (snd (submitHandler w st) = Inr ()) =
             (mint_result w = Resolves \<and> wait_result w = Resolves)"
proof -
  let ?u = "snd (handleUpload w st (snd (createImage w st)))"
  let ?pre = "[SetIsWaiting True] @ fst (createImage w st) @
              fst (handleUpload w st (snd (createImage w st))) @
              [SetURL ?u, SetMessage ''Waiting for Mint...'', GetSigner]"
  have no_mint: "filter is_mint_call ?pre = []"
    by (simp add: createImage_no_mint upload_no_mint handleUpload_effects)
  have effs: "fst (submitHandler w st) =
      ?pre @ Mint ?u (COST (main w)) #
        (case mint_result w of
           Rejects m \<Rightarrow> []
         | Resolves \<Rightarrow>
             TxWait # (case wait_result w of
                         Rejects m \<Rightarrow> []
                       | Resolves \<Rightarrow> [SetIsWaiting False, SetMessage []]))"
    using assms(1,2)
    by (simp add: submitHandler_effects mintImage_effects [OF assms(3,4,5)]
        mintImage_result [OF assms(3,4,5)] main_def split: promise_outcome.splits)
  have res: "(snd (submitHandler w st) = Inr ()) =
      (mint_result w = Resolves \<and> wait_result w = Resolves)"
    using assms(1,2)
    by (simp add: submitHandler_result mintImage_result [OF assms(3,4,5)]
        split: promise_outcome.splits)
  have cost: "COST (main w) = parseUnits w ''1'' ''ether''"
    by (simp add: main_def)
  show ?thesis
    apply (rule exI [of _ ?pre])
    using no_mint effs res cost apply simp
    done
qed

theorem C9_scenario:
  "\<exists>pre. filter is_mint_call pre = [] \<and>
     fst (submitHandler scenario_world scenario_state) =
       pre @ [Mint (Some ''https://gateway.pinata.cloud/ipfs/Qmeta'') 1000000000000000000,
              TxWait, SetIsWaiting False, SetMessage []] \<and>
     COST (main scenario_world) = 1000000000000000000 \<and>
     snd (submitHandler scenario_world scenario_state) = Inr ()"
proof -
  have u: "snd (handleUpload scenario_world scenario_state
                 (snd (createImage scenario_world scenario_state))) =
           Some ''https://gateway.pinata.cloud/ipfs/Qmeta''"
    by (simp add: handleUpload_def uploadImageToPinata_def scenario_world_def
        scenario_state_def trim_def is_white_space_def ToString_def Let_def)
  have c: "COST (main scenario_world) = 1000000000000000000"
    by (simp add: main_def scenario_world_def ethers_parseUnits_def digits_value_def)
  show ?thesis
    using C9_mint_value_and_confirmation
            [where st = scenario_state and w = scenario_world and p = "()" and c = "()"]
    unfolding u c
    by (simp add: scenario_world_def scenario_state_def ethers_parseUnits_def digits_value_def)
qed

section \<open>The inference request\<close>

lemma quote_backtick: "quote_char CHR 0x60 = [CHR 0x60]"
  by (simp add: quote_char_def)

text \<open>
  Claim C10. In a run that reaches the generation stage (the form was submitted), the
  only inference request of the run has as its body the JSON serialization of the object
  whose \<open>inputs\<close> entry is the description with one backtick before it and one after
  it; that body differs from the serialization of the raw description.
\<close>

theorem C10_prompt_is_quoted_description:
  assumes "name st \<noteq> []" and "description st \<noteq> []"
  shows "filter is_fetch_call (fst (submitHandler w st)) =
           [Fetch ''https://api-inference.huggingface.co/models/stabilityai/stable-diffusion-xl-base-1.0''
              (''Bearer '' @ ToString (REACT_APP_HUGGING_FACE_API_KEY w))
              (JSON_stringify (JObj [(''inputs'', JStr (''`'' @ description st @ ''`''))]))] \<and>
         JSON_stringify (JObj [(''inputs'', JStr (''`'' @ description st @ ''`''))]) \<noteq>
           JSON_stringify (JObj [(''inputs'', JStr (description st))])"
proof -
  have "length (JSON_stringify (JObj [(''inputs'', JStr (''`'' @ description st @ ''`''))])) =
        length (JSON_stringify (JObj [(''inputs'', JStr (description st))])) + 2"
    by (simp add: QuoteJSONString_def quote_backtick)
  then have "JSON_stringify (JObj [(''inputs'', JStr (''`'' @ description st @ ''`''))]) \<noteq>
             JSON_stringify (JObj [(''inputs'', JStr (description st))])"
    by auto
  moreover have "filter is_fetch_call (fst (submitHandler w st)) =
           [Fetch ''https://api-inference.huggingface.co/models/stabilityai/stable-diffusion-xl-base-1.0''
              (''Bearer '' @ ToString (REACT_APP_HUGGING_FACE_API_KEY w))
              (JSON_stringify (JObj [(''inputs'', JStr (''`'' @ description st @ ''`''))]))]"
    using assms
    by (simp add: submitHandler_effects createImage_effects handleUpload_effects
        upload_no_fetch mintImage_no_fetch split: sum.splits fetch_outcome.splits)
  ultimately show ?thesis by simp
qed

theorem C10_scenario:
  "filter is_fetch_call (fst (submitHandler scenario_world scenario_state)) =
     [Fetch ''https://api-inference.huggingface.co/models/stabilityai/stable-diffusion-xl-base-1.0''
        ''Bearer hf''
        ([CHR ''{'', CHR 0x22] @ ''inputs'' @ [CHR 0x22, CHR '':'', CHR 0x22] @
         ''`A futuristic lion with cybernetic enhancements.`'' @ [CHR 0x22, CHR ''}''])]"
  using C10_prompt_is_quoted_description [of scenario_state scenario_world]
  by (simp add: scenario_world_def scenario_state_def ToString_def QuoteJSONString_def
      quote_char_def)

section \<open>Validation by the form\<close>

text \<open>
  Claim C6 says that every submission with a name or a description of a length out of
  range is rejected without a network call. \<open>submitHandler\<close> only refuses an empty name
  or description; the lengths are checked by the browser, from the attributes of the
  two controls, and only for a value that the user edited. A name of 2 or of 32
  characters that a script has put into the control is submitted, and the run makes its
  six remote calls.
\<close>

theorem C6_script_set_name_is_submitted:
  "length (name (scenario_state\<lparr>name := ''ab''\<rparr>)) = 2 \<and>
   filter is_upload_call
     (effects (submit_attempt False True scenario_world (scenario_state\<lparr>name := ''ab''\<rparr>))) =
     [PostFile ''https://api.pinata.cloud/pinning/pinFileToIPFS'' ''Bearer jwt'' ''img'',
      PostJSON ''https://api.pinata.cloud/pinning/pinJSONToIPFS'' ''Bearer jwt''
        (JObj [(''name'', JStr ''ab''),
               (''description'', JStr ''A futuristic lion with cybernetic enhancements.''),
               (''image'', JStr ''https://gateway.pinata.cloud/ipfs/Qm1mage''),
               (''attributes'', JArr [])])] \<and>
   filter is_mint_call
     (effects (submit_attempt False True scenario_world (scenario_state\<lparr>name := ''ab''\<rparr>))) =
     [Mint (Some ''https://gateway.pinata.cloud/ipfs/Qmeta'') 1000000000000000000] \<and>
   length (filter is_remote_call
     (effects (submit_attempt False True scenario_world (scenario_state\<lparr>name := ''ab''\<rparr>)))) = 6 \<and>
   length (name (scenario_state\<lparr>name := ''Cyber Lion Cyber Lion Cyber Lion''\<rparr>)) = 32 \<and>
   length (filter is_remote_call
     (effects (submit_attempt False True scenario_world
        (scenario_state\<lparr>name := ''Cyber Lion Cyber Lion Cyber Lion''\<rparr>)))) = 6"
  by (simp add: world_defs scenario_state_def submit_attempt_def constraint_violations_def
      run_defs)

text \<open>
  Claim C6, amended. When the name or the description is empty, or was last changed by a
  user edit and has a length out of its range (3 to 30 for the name, 10 to 150 for the
  description), the form is not submitted: from the idle state the browser reports a
  constraint violation on one of the two controls, the handler is not called, no effect
  is performed (so no request is sent) and the state of the component is unchanged.
\<close>

theorem C6_invalid_lengths_not_submitted:
  assumes "name st = [] \<or>
           (name_edited \<and> (length (name st) < 3 \<or> 30 < length (name st))) \<or>
           description st = [] \<or>
           (description_edited \<and>
              (length (description st) < 10 \<or> 150 < length (description st)))"
  shows "submit_attempt name_edited description_edited w st =
           (if isWaiting st then ButtonDisabled
            else Invalid (constraint_violations 3 30 name_edited (name st))
                         (constraint_violations 10 150 description_edited (description st))) \<and>
         \<not> (constraint_violations 3 30 name_edited (name st) = [] \<and>
            constraint_violations 10 150 description_edited (description st) = []) \<and>
         effects (submit_attempt name_edited description_edited w st) = [] \<and>
         apply_events st (effects (submit_attempt name_edited description_edited w st)) = st"
proof -
  have v: "\<not> (constraint_violations 3 30 name_edited (name st) = [] \<and>
              constraint_violations 10 150 description_edited (description st) = [])"
    using assms by (auto simp add: constraint_violations_def)
  then have f: "submit_attempt name_edited description_edited w st =
           (if isWaiting st then ButtonDisabled
            else Invalid (constraint_violations 3 30 name_edited (name st))
                         (constraint_violations 10 150 description_edited (description st)))"
    unfolding submit_attempt_def by (simp only: if_False)
  then have e: "effects (submit_attempt name_edited description_edited w st) = []" by simp
  then have "apply_events st (effects (submit_attempt name_edited description_edited w st)) = st"
    by (simp add: apply_events_def)
  with v f e show ?thesis by (intro conjI)
qed

theorem C6_short_name:
  "submit_attempt True True scenario_world (scenario_state\<lparr>name := ''ab''\<rparr>) =
     Invalid [TooShort] [] \<and>
   effects (submit_attempt True True scenario_world (scenario_state\<lparr>name := ''ab''\<rparr>)) = [] \<and>
   apply_events (scenario_state\<lparr>name := ''ab''\<rparr>)
     (effects (submit_attempt True True scenario_world (scenario_state\<lparr>name := ''ab''\<rparr>))) =
   scenario_state\<lparr>name := ''ab''\<rparr>"
  using C6_invalid_lengths_not_submitted
          [of "scenario_state\<lparr>name := ''ab''\<rparr>" True True scenario_world]
  by (simp add: scenario_state_def constraint_violations_def apply_events_def)

section \<open>The credential check\<close>

text \<open>
  Claim C4 says that a run without the pinning credential fails before any network call,
  so that the inference request is never sent. The check is the first statement of
  \<open>uploadImageToPinata\<close>, which \<open>submitHandler\<close> reaches only after \<open>createImage\<close> has
  returned: without the credential the first remote call of the run is the inference
  request.
\<close>

theorem C4_generation_precedes_credential_check:
  "REACT_APP_PINATA_JWT no_credential_world = None \<and>
   take 3 (effects (form_submit no_credential_world scenario_state)) =
     [SetIsWaiting True, SetMessage ''Generating Image...'',
      Fetch ''https://api-inference.huggingface.co/models/stabilityai/stable-diffusion-xl-base-1.0''
        ''Bearer hf''
        (JSON_stringify
           (JObj [(''inputs'', JStr ''`A futuristic lion with cybernetic enhancements.`'')]))]"
  by (simp add: world_defs scenario_state_def form_submit_def submit_attempt_def constraint_violations_def
      submitHandler_def createImage_def query_def ToString_def
      split: prod.splits sum.splits)

text \<open>
  Claim C4, amended. When the credential is absent (the variable is unset, or empty after
  trimming), \<open>uploadImageToPinata\<close> throws its error before performing any effect, so the
  run sends no request to the pinning service; the inference request has been sent by
  then.
\<close>

theorem C4_no_upload_request_without_credential:
  assumes "name st \<noteq> []" and "description st \<noteq> []"
    and "map_option trim (REACT_APP_PINATA_JWT w) = None \<or>
         map_option trim (REACT_APP_PINATA_JWT w) = Some []"
  shows "uploadImageToPinata w (snd (createImage w st)) (name st) (description st) =
           ([], Inl (Error ''Pinata JWT token is missing from environment variables.'')) \<and>
         filter is_upload_call (fst (submitHandler w st)) = [] \<and>
         filter is_fetch_call (fst (submitHandler w st)) =
           [Fetch ''https://api-inference.huggingface.co/models/stabilityai/stable-diffusion-xl-base-1.0''
              (''Bearer '' @ ToString (REACT_APP_HUGGING_FACE_API_KEY w))
              (JSON_stringify (JObj [(''inputs'', JStr (''`'' @ description st @ ''`''))]))]"
proof -
  have up: "uploadImageToPinata w b (name st) (description st) =
           ([], Inl (Error ''Pinata JWT token is missing from environment variables.''))" for b
  proof -
    from assms(3) show ?thesis
    proof
      assume h: "map_option trim (REACT_APP_PINATA_JWT w) = None"
      show ?thesis unfolding uploadImageToPinata_def h by simp
    next
      assume h: "map_option trim (REACT_APP_PINATA_JWT w) = Some []"
      show ?thesis unfolding uploadImageToPinata_def h by simp
    qed
  qed
  have "filter is_upload_call (fst (submitHandler w st)) = []"
    using assms(1,2)
    by (simp add: submitHandler_effects createImage_no_upload mintImage_no_upload
        handleUpload_effects up split: sum.splits)
  moreover have "filter is_fetch_call (fst (submitHandler w st)) =
           [Fetch ''https://api-inference.huggingface.co/models/stabilityai/stable-diffusion-xl-base-1.0''
              (''Bearer '' @ ToString (REACT_APP_HUGGING_FACE_API_KEY w))
              (JSON_stringify (JObj [(''inputs'', JStr (''`'' @ description st @ ''`''))]))]"
    using assms(1,2)
    by (simp add: submitHandler_effects createImage_effects handleUpload_effects
        upload_no_fetch mintImage_no_fetch split: sum.splits fetch_outcome.splits)
  ultimately show ?thesis using up by simp
qed

theorem C4_blank_credential:
  "uploadImageToPinata (scenario_world\<lparr>REACT_APP_PINATA_JWT := Some ''  ''\<rparr>) (Some ''img'')
     ''Cyber Lion'' ''A futuristic lion with cybernetic enhancements.'' =
     ([], Inl (Error ''Pinata JWT token is missing from environment variables.'')) \<and>
   filter is_upload_call
     (fst (submitHandler (scenario_world\<lparr>REACT_APP_PINATA_JWT := Some ''  ''\<rparr>) scenario_state)) = [] \<and>
   length (filter is_fetch_call
     (fst (submitHandler (scenario_world\<lparr>REACT_APP_PINATA_JWT := Some ''  ''\<rparr>) scenario_state))) = 1"
  using C4_no_upload_request_without_credential
          [of scenario_state "scenario_world\<lparr>REACT_APP_PINATA_JWT := Some ''  ''\<rparr>"]
  by (simp add: scenario_world_def scenario_state_def trim_def is_white_space_def
      createImage_result)

section \<open>Runs in which a stage fails\<close>

text \<open>
  Claim C3 says that a run whose generation call fails ends there, with no upload and no
  mint call. Evaluated on a network failure and on a response with status 503:
  \<open>createImage\<close> catches the network failure and returns \<open>undefined\<close>, and \<open>query\<close>
  does not look at the status of the response; in both runs \<open>submitHandler\<close> goes on to
  both uploads and to the mint call, and returns normally.
\<close>

theorem C3_generation_failure_run_continues:
  "filter (\<lambda>e. is_upload_call e \<or> is_mint_call e)
     (effects (form_submit network_down_world scenario_state)) =
     [PostFile ''https://api.pinata.cloud/pinning/pinFileToIPFS'' ''Bearer jwt'' ''undefined'',
      PostJSON ''https://api.pinata.cloud/pinning/pinJSONToIPFS'' ''Bearer jwt''
        (JObj [(''name'', JStr ''Cyber Lion''),
               (''description'', JStr ''A futuristic lion with cybernetic enhancements.''),
               (''image'', JStr ''https://gateway.pinata.cloud/ipfs/Qm1mage''),
               (''attributes'', JArr [])]),
      Mint (Some ''https://gateway.pinata.cloud/ipfs/Qmeta'') 1000000000000000000] \<and>
   filter (\<lambda>e. is_upload_call e \<or> is_mint_call e)
     (effects (form_submit service_unavailable_world scenario_state)) =
     [PostFile ''https://api.pinata.cloud/pinning/pinFileToIPFS'' ''Bearer jwt'' ''{}'',
      PostJSON ''https://api.pinata.cloud/pinning/pinJSONToIPFS'' ''Bearer jwt''
        (JObj [(''name'', JStr ''Cyber Lion''),
               (''description'', JStr ''A futuristic lion with cybernetic enhancements.''),
               (''image'', JStr ''https://gateway.pinata.cloud/ipfs/Qm1mage''),
               (''attributes'', JArr [])]),
      Mint (Some ''https://gateway.pinata.cloud/ipfs/Qmeta'') 1000000000000000000] \<and>
   snd (submitHandler network_down_world scenario_state) = Inr () \<and>
   snd (submitHandler service_unavailable_world scenario_state) = Inr ()"
  by (simp add: world_defs scenario_state_def form_submit_def submit_attempt_def constraint_violations_def run_defs)

lemma upload_failure_still_mints:
  assumes "name st \<noteq> []" and "description st \<noteq> []"
    and "snd (uploadImageToPinata w (snd (createImage w st)) (name st) (description st)) = Inl err"
    and "provider st = Some p" and "nft st = Some c" and "getSigner_result w = Resolves"
  shows "filter is_mint_call (fst (submitHandler w st)) =
           [Mint None (parseUnits w ''1'' ''ether'')]"
  using submitHandler_mint_calls [OF assms(1,2)] assms(3,4,5,6)
  by (simp add: mintImage_mint_calls handleUpload_result)

text \<open>
  Claim C5 says that a run in which an upload fails ends there, with no mint call.
  Evaluated on a rejected file upload: \<open>uploadImageToPinata\<close> throws, \<open>handleUpload\<close>
  catches the error and returns \<open>undefined\<close>, and \<open>submitHandler\<close> calls \<open>mint\<close> of
  the contract with that token URI and the payment. That call is rejected, no
  confirmation is awaited, and the run ends with the rejection of the call.
\<close>

theorem C5_upload_failure_run_mints:
  "snd (uploadImageToPinata upload_rejected_world (Some ''img'') ''Cyber Lion''
          ''A futuristic lion with cybernetic enhancements.'') =
     Inl (Error ''Failed to upload to Pinata: Network Error'') \<and>
   filter (\<lambda>e. is_upload_call e \<or> is_mint_call e)
     (effects (form_submit upload_rejected_world scenario_state)) =
     [PostFile ''https://api.pinata.cloud/pinning/pinFileToIPFS'' ''Bearer jwt'' ''img'',
      Mint None 1000000000000000000] \<and>
   TxWait \<notin> set (fst (submitHandler upload_rejected_world scenario_state)) \<and>
   isl (snd (submitHandler upload_rejected_world scenario_state))"
  by (simp add: world_defs scenario_state_def form_submit_def submit_attempt_def
      constraint_violations_def run_defs)

section \<open>The waiting flag\<close>

lemma apply_events_append:
  "apply_events st (xs @ ys) = apply_events (apply_events st xs) ys"
  by (simp add: apply_events_def)

lemma suspended_states_append:
  "suspended_states st (xs @ ys) =
     suspended_states st xs @ suspended_states (apply_events st xs) ys"
  by (induction xs arbitrary: st) (simp_all add: apply_events_def)

lemma isWaiting_apply_event:
  "\<forall>b. e \<noteq> SetIsWaiting b \<Longrightarrow> isWaiting (apply_event st e) = isWaiting st"
  by (cases e) auto

lemma isWaiting_apply_events:
  "\<forall>b. SetIsWaiting b \<notin> set evs \<Longrightarrow> isWaiting (apply_events st evs) = isWaiting st"
proof (induction evs arbitrary: st)
  case Nil
  then show ?case by (simp add: apply_events_def)
next
  case (Cons e evs)
  from Cons.prems have e: "\<forall>b. e \<noteq> SetIsWaiting b" and evs: "\<forall>b. SetIsWaiting b \<notin> set evs"
    by auto
  have "apply_events st (e # evs) = apply_events (apply_event st e) evs"
    by (simp add: apply_events_def)
  then show ?case
    using Cons.IH [OF evs, of "apply_event st e"] isWaiting_apply_event [OF e, of st] by simp
qed

lemma suspended_states_waiting:
  "\<forall>b. SetIsWaiting b \<notin> set evs \<Longrightarrow> isWaiting st \<Longrightarrow>
   list_all isWaiting (suspended_states st evs)"
proof (induction evs arbitrary: st)
  case Nil
  then show ?case by simp
next
  case (Cons e evs)
  from Cons.prems have e: "\<forall>b. e \<noteq> SetIsWaiting b" and evs: "\<forall>b. SetIsWaiting b \<notin> set evs"
    by auto
  have w: "isWaiting (apply_event st e)"
    using isWaiting_apply_event [OF e, of st] Cons.prems(2) by simp
  show ?case
    using Cons.IH [OF evs w] w by simp
qed

lemma upload_keeps_waiting: "SetIsWaiting x \<notin> set (fst (uploadImageToPinata w b n d))"
  by (simp add: uploadImageToPinata_def upload_catch_def Let_def
      split: option.splits axios_outcome.splits)

lemma mintImage_keeps_waiting: "SetIsWaiting x \<notin> set (fst (mintImage w st t))"
  by (simp add: mintImage_def split: option.splits promise_outcome.splits)

lemma createImage_keeps_waiting:
  "fetch_response w = FetchBlob status b \<Longrightarrow> SetIsWaiting x \<notin> set (fst (createImage w st))"
  by (simp add: createImage_effects)

text \<open>
  The effects of a run between the first, which sets the waiting flag, and the last two,
  which clear it after a confirmed mint.
\<close>

lemma run_body_keeps_waiting:
  assumes "fetch_response w = FetchBlob status b"
  shows "\<forall>x. SetIsWaiting x \<notin>
           set (fst (createImage w st) @
                fst (handleUpload w st (snd (createImage w st))) @
                [SetURL (snd (handleUpload w st (snd (createImage w st))))] @
                fst (mintImage w st (snd (handleUpload w st (snd (createImage w st))))))"
  using createImage_keeps_waiting [OF assms]
  by (simp add: handleUpload_effects upload_keeps_waiting mintImage_keeps_waiting)

lemma button_disabled_while_generation_returns:
  assumes "name st \<noteq> []" and "description st \<noteq> []"
    and "fetch_response w = FetchBlob status b"
  shows "list_all (\<lambda>s. form_submit w' s = ButtonDisabled)
           (suspended_states st (fst (submitHandler w st)))"
proof -
  let ?body = "fst (createImage w st) @
               fst (handleUpload w st (snd (createImage w st))) @
               [SetURL (snd (handleUpload w st (snd (createImage w st))))] @
               fst (mintImage w st (snd (handleUpload w st (snd (createImage w st)))))"
  let ?fin = "case snd (mintImage w st (snd (handleUpload w st (snd (createImage w st))))) of
                Inl err \<Rightarrow> [] | Inr ok \<Rightarrow> [SetIsWaiting False, SetMessage []]"
  have T: "fst (submitHandler w st) = SetIsWaiting True # (?body @ ?fin)"
    using assms(1,2) by (simp add: submitHandler_effects)
  have fin: "suspended_states s ?fin = []" for s
    by (simp split: sum.splits)
  have "list_all isWaiting (suspended_states (st\<lparr>isWaiting := True\<rparr>) ?body)"
    using suspended_states_waiting [OF run_body_keeps_waiting [OF assms(3)]] by simp
  then have "list_all isWaiting (suspended_states st (fst (submitHandler w st)))"
    unfolding T by (simp add: suspended_states_append fin)
  then show ?thesis
    by (simp add: list_all_iff form_submit_def submit_attempt_def)
qed

lemma slot_released_on_return:
  assumes "name st \<noteq> []" and "description st \<noteq> []"
    and "snd (submitHandler w st) = Inr ()"
  shows "isWaiting (apply_events st (fst (submitHandler w st))) = False"
proof -
  have "snd (mintImage w st (snd (handleUpload w st (snd (createImage w st))))) = Inr ()"
    using assms by (simp add: submitHandler_result)
  then have "\<exists>pre. fst (submitHandler w st) = pre @ [SetIsWaiting False, SetMessage []]"
    using assms(1,2) by (simp add: submitHandler_effects)
  then obtain pre where "fst (submitHandler w st) = pre @ [SetIsWaiting False, SetMessage []]" ..
  then show ?thesis
    by (simp add: apply_events_append) (simp add: apply_events_def)
qed

lemma slot_kept_on_failure:
  assumes "name st \<noteq> []" and "description st \<noteq> []"
    and "fetch_response w = FetchBlob status b"
    and "snd (submitHandler w st) = Inl err"
  shows "isWaiting (apply_events st (fst (submitHandler w st))) = True"
proof -
  let ?body = "fst (createImage w st) @
               fst (handleUpload w st (snd (createImage w st))) @
               [SetURL (snd (handleUpload w st (snd (createImage w st))))] @
               fst (mintImage w st (snd (handleUpload w st (snd (createImage w st)))))"
  have "snd (mintImage w st (snd (handleUpload w st (snd (createImage w st))))) = Inl err"
    using assms(1,2,4) by (simp add: submitHandler_result)
  then have T: "fst (submitHandler w st) = [SetIsWaiting True] @ ?body"
    using assms(1,2) by (simp add: submitHandler_effects)
  have "isWaiting (apply_events (apply_events st [SetIsWaiting True]) ?body) =
        isWaiting (apply_events st [SetIsWaiting True])"
    by (rule isWaiting_apply_events [OF run_body_keeps_waiting [OF assms(3)]])
  then show ?thesis
    unfolding T apply_events_append by (simp add: apply_events_def)
qed

text \<open>
  Claim C7 says that a submission made while a run is in flight is refused. The button is
  disabled while the waiting flag is set, and the flag stays set at every remote call of
  a run whose generation call returns (\<open>button_disabled_while_generation_returns\<close>).
  Evaluated on a network failure of the generation call: the \<open>catch\<close> block of
  \<open>createImage\<close> clears the flag and the run goes on, so at the five remote calls that
  follow the flag is clear, and a submission made while the file upload is pending starts
  a second run.
\<close>

theorem C7_submission_accepted_during_run:
  "map isWaiting
     (suspended_states scenario_state (fst (submitHandler network_down_world scenario_state))) =
     [True, False, False, False, False, False] \<and>
   map message
     (suspended_states scenario_state (fst (submitHandler network_down_world scenario_state))) =
     [''Generating Image...'', ''Uploading image to IPFS...'', ''Uploading metadata...'',
      ''Waiting for Mint...'', ''Waiting for Mint...'', ''Waiting for Mint...''] \<and>
   take 1 (effects (form_submit scenario_world
     (suspended_states scenario_state
        (fst (submitHandler network_down_world scenario_state)) ! 1))) = [SetIsWaiting True]"
  by (simp add: world_defs scenario_state_def form_submit_def submit_attempt_def constraint_violations_def run_defs)

text \<open>
  Claim C8 says that the slot is released after every run, also when the mint fails. A run
  that returns normally clears the flag (\<open>slot_released_on_return\<close>). Evaluated on a
  transaction rejected in the wallet: \<open>mintImage\<close> throws, \<open>submitHandler\<close> has no
  handler around the call, the flag stays set and the button stays disabled.
\<close>

theorem C8_mint_failure_keeps_slot:
  "snd (submitHandler mint_rejected_world scenario_state) = Inl (Error ''user rejected action'') \<and>
   isWaiting (apply_events scenario_state
                (fst (submitHandler mint_rejected_world scenario_state))) = True \<and>
   form_submit scenario_world
     (apply_events scenario_state (fst (submitHandler mint_rejected_world scenario_state))) =
     ButtonDisabled"
  by (simp add: world_defs scenario_state_def form_submit_def submit_attempt_def constraint_violations_def run_defs
      apply_events_def)

end
